theory Spec2Isabelle
  imports Complex_Main
begin

section \<open>Data model of the tensor boundary\<close>

text \<open>
  The embedding follows \<^verbatim>\<open>spacy_curated_transformers/models/architectures.py\<close>.
  Python exceptions are values of \<open>error\<close>; a function that may raise returns
  \<open>error + 'a\<close> with \<open>Inl\<close> for the exception.

  \<^item> \<open>ValueError_max_empty\<close>: \<^verbatim>\<open>max()\<close> over an empty generator.
  \<^item> \<open>ValueError_seq_too_long n m\<close>: the explicit \<^verbatim>\<open>raise ValueError\<close> of
    \<^verbatim>\<open>_convert_inputs\<close>; its message interpolates the longest length \<open>n\<close> of
    the batch and the model's maximum \<open>m\<close>.
  \<^item> \<open>ValueError_broadcast\<close>: a slice assignment whose shapes do not broadcast.
  \<^item> \<open>IndexError\<close>, \<open>KeyError\<close>, \<open>AssertionError\<close>: as in Python.
  \<^item> \<open>External_error\<close>: an exception raised inside a library the code calls, named
    by the call.
\<close>

datatype error =
    ValueError_max_empty
  | ValueError_seq_too_long nat int
  | ValueError_broadcast
  | IndexError
  | KeyError
  | AssertionError
  | External_error string

text \<open>
  \<^verbatim>\<open>model.ops\<close>: the fields the code reads, and one fact of the installation that
  decides what \<^verbatim>\<open>xp2torch\<close> accepts: whether torch has a tensor type for unsigned
  64-bit integers. \<^verbatim>\<open>model.attrs\<close> is a dictionary.
\<close>

record ops =
  device_type :: string
  device_id :: int
  torch_uint64 :: bool

record model =
  model_ops :: ops
  attrs :: "string \<rightharpoonup> bool"

text \<open>
  An \<^verbatim>\<open>Ints1d\<close> is a list of integers (\<^verbatim>\<open>x.size\<close> and \<^verbatim>\<open>x.shape[0]\<close> are its
  length). A two-dimensional integer array carries its element type, its shape and
  its rows.

  The element type of a buffer made by \<^verbatim>\<open>full\<close> is the one the library infers from
  the fill value, a Python integer: signed 64 bits when the value fits (the default
  integer of the platform is taken to be 64 bits wide), unsigned 64 bits for the
  values from \<open>2 ^ 63\<close> up to \<open>2 ^ 64 - 1\<close>, and Python objects otherwise. Storing a
  value into a buffer casts it to the element type, and the cast wraps around.
\<close>

type_synonym ints1d = "int list"

datatype np_dtype = Int64 | UInt64 | Object

definition in_int64 :: "int \<Rightarrow> bool" where
  "in_int64 v = (- (2 ^ 63) \<le> v \<and> v < 2 ^ 63)"

definition full_dtype :: "int \<Rightarrow> np_dtype" where
  "full_dtype v =
     (if in_int64 v then Int64
      else if 2 ^ 63 \<le> v \<and> v < 2 ^ 64 then UInt64
      else Object)"

definition astype :: "np_dtype \<Rightarrow> int \<Rightarrow> int" where
  "astype dt v =
     (case dt of
        Int64 \<Rightarrow> (v + 2 ^ 63) mod 2 ^ 64 - 2 ^ 63
      | UInt64 \<Rightarrow> v mod 2 ^ 64
      | Object \<Rightarrow> v)"

record ints2d =
  dtype :: np_dtype
  shape :: "nat \<times> nat"
  rows :: "int list list"

text \<open>
  A torch tensor: the device it was placed on (\<open>None\<close> when \<^verbatim>\<open>xp2torch\<close> is called
  without a device and the library picks its default) and its contents.
\<close>

datatype torch_device = Cuda int

datatype 'a tensor = Tensor (device_of: "torch_device option") (data_of: 'a)

definition xp2torch :: "torch_device option \<Rightarrow> 'a \<Rightarrow> 'a tensor" where
  "xp2torch dev a = Tensor dev a"

definition torch2xp :: "'a tensor \<Rightarrow> ops \<Rightarrow> 'a" where
  "torch2xp t ops = data_of t"

text \<open>
  \<^verbatim>\<open>xp2torch\<close> on an integer buffer: torch has no tensor of Python objects, and a
  tensor of unsigned 64-bit integers only where the installation has that type.
\<close>

definition xp2torch_ints ::
  "bool \<Rightarrow> torch_device option \<Rightarrow> ints2d \<Rightarrow> error + ints2d tensor" where
  "xp2torch_ints has_uint64 dev a =
     (case dtype a of
        Int64 \<Rightarrow> Inr (xp2torch dev a)
      | UInt64 \<Rightarrow> if has_uint64 then Inr (xp2torch dev a) else Inl (External_error ''xp2torch'')
      | Object \<Rightarrow> Inl (External_error ''xp2torch''))"

text \<open>\<^verbatim>\<open>ArgsKwargs(args=..., kwargs=...)\<close>: a tuple and a dictionary given in order.\<close>

record ('a, 'k) args_kwargs =
  args :: "'a list"
  kwargs :: "(string \<times> 'k) list"

text \<open>
  Buffers allocated through \<^verbatim>\<open>ops\<close> are recorded, by shape, in a log that every
  allocating function threads through: \<^verbatim>\<open>ops.xp.full\<close>, which fills the buffer with
  the given value, and \<^verbatim>\<open>ops.alloc1f\<close>, which fills it with zeros.
\<close>

type_synonym alloc_log = "nat list list"

definition xp_full :: "nat \<times> nat \<Rightarrow> int \<Rightarrow> alloc_log \<Rightarrow> ints2d \<times> alloc_log" where
  "xp_full sh v alog =
     (\<lparr>dtype = full_dtype v, shape = sh, rows = replicate (fst sh) (replicate (snd sh) v)\<rparr>,
      alog @ [[fst sh, snd sh]])"

definition alloc1f :: "nat \<Rightarrow> alloc_log \<Rightarrow> ('f::zero) list \<times> alloc_log" where
  "alloc1f n alog = (replicate n 0, alog @ [[n]])"

section \<open>Padding: \<^verbatim>\<open>_convert_inputs\<close>\<close>

text \<open>
  \<^verbatim>\<open>max(x.size for x in X)\<close>: raises on an empty batch.
\<close>

definition max_size :: "ints1d list \<Rightarrow> error + nat" where
  "max_size X = (if X = [] then Inl ValueError_max_empty else Inr (Max (set (map length X))))"

text \<open>
  \<^verbatim>\<open>Xt[i, :span_len] = span\<close>. The row index must exist; the slice covers the columns
  below \<open>min span_len ncols\<close>; the right-hand side must have that many entries, or
  exactly one entry, which is then repeated. The values are cast to the element type
  of \<open>Xt\<close>.
\<close>

definition set_row_prefix :: "ints2d \<Rightarrow> nat \<Rightarrow> nat \<Rightarrow> ints1d \<Rightarrow> error + ints2d" where
  "set_row_prefix Xt i span_len span' =
     (if fst (shape Xt) \<le> i then Inl IndexError
      else
        let k = min span_len (snd (shape Xt)) in
        if length span' = k then
          Inr (Xt\<lparr>rows := (rows Xt)
                 [i := map (astype (dtype Xt)) span' @ drop k (rows Xt ! i)]\<rparr>)
        else if length span' = 1 then
          Inr (Xt\<lparr>rows := (rows Xt)
                 [i := replicate k (astype (dtype Xt) (hd span')) @ drop k (rows Xt ! i)]\<rparr>)
        else Inl ValueError_broadcast)"

text \<open>The loop \<^verbatim>\<open>for i in range(len(X))\<close>, run over the list of its indices.\<close>

fun copy_spans :: "ints1d list \<Rightarrow> nat list \<Rightarrow> ints2d \<Rightarrow> error + ints2d" where
  "copy_spans X [] Xt = Inr Xt"
| "copy_spans X (i # is) Xt =
     (let span = X ! i; span_len = length span in
      case set_row_prefix Xt i span_len span of
        Inl e \<Rightarrow> Inl e
      | Inr Xt' \<Rightarrow> copy_spans X is Xt')"

text \<open>
  The closure \<^verbatim>\<open>convert_from_torch_backward\<close>, with the captured batch \<open>X\<close> as its
  first argument: \<^verbatim>\<open>[ops.alloc1f(x.shape[0]) for x in X]\<close>.
\<close>

fun alloc_grads :: "ints1d list \<Rightarrow> alloc_log \<Rightarrow> ('f::zero) list list \<times> alloc_log" where
  "alloc_grads [] alog = ([], alog)"
| "alloc_grads (x # xs) alog =
     (let (g, alog1) = alloc1f (length x) alog;
          (gs, alog2) = alloc_grads xs alog1
      in (g # gs, alog2))"

definition convert_from_torch_backward ::
  "ints1d list \<Rightarrow> 'd \<Rightarrow> alloc_log \<Rightarrow> ('f::zero) list list \<times> alloc_log" where
  "convert_from_torch_backward X d_inputs alog = alloc_grads X alog"

definition convert_inputs ::
  "model \<Rightarrow> ints1d list \<Rightarrow> bool \<Rightarrow> int \<Rightarrow> int \<Rightarrow> alloc_log \<Rightarrow>
   (error + ((ints2d tensor, unit) args_kwargs \<times>
             ('d \<Rightarrow> alloc_log \<Rightarrow> ('f::zero) list list \<times> alloc_log))) \<times> alloc_log" where
  "convert_inputs m X is_train max_model_seq_len padding_idx alog =
     (let ops = model_ops m in
      case max_size X of
        Inl e \<Rightarrow> (Inl e, alog)
      | Inr max_seq_len \<Rightarrow>
          if int max_seq_len > max_model_seq_len then
            (Inl (ValueError_seq_too_long max_seq_len max_model_seq_len), alog)
          else
            let (Xt0, alog1) = xp_full (length X, max_seq_len) padding_idx alog in
            (case copy_spans X [0..<length X] Xt0 of
               Inl e \<Rightarrow> (Inl e, alog1)
             | Inr Xt1 \<Rightarrow>
                 (case (if device_type ops = ''gpu''
                        then xp2torch_ints (torch_uint64 ops) (Some (Cuda (device_id ops))) Xt1
                        else xp2torch_ints (torch_uint64 ops) None Xt1) of
                    Inl e \<Rightarrow> (Inl e, alog1)
                  | Inr Xt \<Rightarrow>
                      let output = \<lparr>args = [Xt], kwargs = []\<rparr>
                      in (Inr (output, convert_from_torch_backward X), alog1))))"

section \<open>Un-padding: \<^verbatim>\<open>_convert_outputs\<close>\<close>

text \<open>
  The encoder's output holds one tensor per layer, each indexed by batch row, timestep
  and hidden unit. The values are copied, never computed with, so their type is a
  parameter. The result pairs the per-document, per-layer arrays with the mode flag.
\<close>

record 'f pytorch_transformer_output =
  all_outputs :: "'f list list list tensor list"

record 'f transformer_model_output =
  outputs :: "'f list list list list"
  last_layer_only :: bool

text \<open>\<^verbatim>\<open>output[i, :len, :]\<close>: the row must exist, the slice is clamped.\<close>

definition index_slice ::
  "'f list list list tensor \<Rightarrow> nat \<Rightarrow> nat \<Rightarrow> error + 'f list list tensor" where
  "index_slice output i len =
     (if i < length (data_of output)
      then Inr (Tensor (device_of output) (take len (data_of output ! i)))
      else Inl IndexError)"

text \<open>\<^verbatim>\<open>all_outputs[-1]\<close>.\<close>

definition last_output :: "'a list \<Rightarrow> error + 'a" where
  "last_output xs = (if xs = [] then Inl IndexError else Inr (last xs))"

text \<open>
  A list comprehension whose body may raise: the elements are computed in order and
  the first exception ends the comprehension.
\<close>

fun comprehension :: "('a \<Rightarrow> error + 'b) \<Rightarrow> 'a list \<Rightarrow> error + 'b list" where
  "comprehension f [] = Inr []"
| "comprehension f (x # xs) =
     (case f x of
        Inl e \<Rightarrow> Inl e
      | Inr y \<Rightarrow> (case comprehension f xs of Inl e \<Rightarrow> Inl e | Inr ys \<Rightarrow> Inr (y # ys)))"

text \<open>
  The closure \<^verbatim>\<open>convert_for_torch_backward\<close>, with the captured \<open>Yt\<close> as its first
  argument. The \<^verbatim>\<open>assert\<close> is executed: the interpreter does not run with \<^verbatim>\<open>-O\<close>.
\<close>

definition convert_for_torch_backward ::
  "'f list list tensor list list \<Rightarrow> 'g list list \<Rightarrow>
   error + ('f list list tensor list, 'g tensor list) args_kwargs" where
  "convert_for_torch_backward Yt dY =
     (let Yt_flat = concat Yt;
          dYt_flat = map (xp2torch None) (concat dY)
      in if length Yt_flat = length dYt_flat
         then Inr \<lparr>args = [Yt_flat], kwargs = [(''grad_tensors'', dYt_flat)]\<rparr>
         else Inl AssertionError)"

definition slice_all_layers ::
  "'f pytorch_transformer_output \<Rightarrow> nat list \<Rightarrow> error + 'f list list tensor list list" where
  "slice_all_layers model_outputs input_lens =
     comprehension
       (\<lambda>(i, len). comprehension (\<lambda>output. index_slice output i len)
                      (all_outputs model_outputs))
       (enumerate 0 input_lens)"

definition slice_last_layer ::
  "'f pytorch_transformer_output \<Rightarrow> nat list \<Rightarrow> error + 'f list list tensor list list" where
  "slice_last_layer model_outputs input_lens =
     comprehension
       (\<lambda>(i, len).
          case last_output (all_outputs model_outputs) of
            Inl e \<Rightarrow> Inl e
          | Inr output \<Rightarrow>
              (case index_slice output i len of Inl e \<Rightarrow> Inl e | Inr y \<Rightarrow> Inr [y]))
       (enumerate 0 input_lens)"

definition convert_outputs ::
  "model \<Rightarrow> ints1d list \<times> 'f pytorch_transformer_output \<Rightarrow> bool \<Rightarrow>
   error + ('f transformer_model_output \<times>
            ('g list list \<Rightarrow> error + ('f list list tensor list, 'g tensor list) args_kwargs))"
  where
  "convert_outputs m inputs_outputs is_train =
     (let (model_inputs, model_outputs) = inputs_outputs;
          ops = model_ops m
      in
      case attrs m ''_all_layer_outputs'' of
        None \<Rightarrow> Inl KeyError
      | Some all_layer_outputs \<Rightarrow>
          let input_lens = map length model_inputs in
          (case (if all_layer_outputs
                 then slice_all_layers model_outputs input_lens
                 else slice_last_layer model_outputs input_lens) of
             Inl e \<Rightarrow> Inl e
           | Inr Yt \<Rightarrow>
               let Y = map (map (\<lambda>layer. torch2xp layer ops)) Yt;
                   output = \<lparr>outputs = Y, last_layer_only = (\<not> all_layer_outputs)\<rparr>
               in Inr (output, convert_for_torch_backward Yt)))"

text \<open>
  Row \<open>i\<close> of every layer of a list, cut to \<open>n\<close> timesteps: the value of the inner
  comprehension when no index is out of range.
\<close>

definition slice_doc :: "'f list list list tensor list \<Rightarrow> nat \<Rightarrow> nat \<Rightarrow> 'f list list tensor list" where
  "slice_doc L i n = map (\<lambda>t. Tensor (device_of t) (take n (data_of t ! i))) L"

section \<open>Model composition: \<^verbatim>\<open>transformer_model_forward\<close>\<close>

text \<open>
  A layer maps its input to an output and a backward function; either call may raise.
  \<^verbatim>\<open>build_transformer_model_v1\<close> gives the model one layer, the chain it composes
  from the piece encoder, the span extractor and \<^verbatim>\<open>remove_bos_eos\<close>; the composed
  chain is a parameter here. The layers' updates of their own parameters are not part
  of the model.
\<close>

type_synonym ('x, 'y, 'dy, 'dx) layer = "'x \<Rightarrow> bool \<Rightarrow> error + 'y \<times> ('dy \<Rightarrow> error + 'dx)"

record ('x, 'y, 'dy, 'dx) transformer_model =
  layers :: "('x, 'y, 'dy, 'dx) layer list"

definition build_transformer_model_v1 ::
  "('x, 'y, 'dy, 'dx) layer \<Rightarrow> ('x, 'y, 'dy, 'dx) transformer_model" where
  "build_transformer_model_v1 chained = \<lparr>layers = [chained]\<rparr>"

text \<open>The inner \<^verbatim>\<open>backprop\<close>, with the captured \<^verbatim>\<open>backprop_layer\<close> as first argument.\<close>

definition backprop :: "('dy \<Rightarrow> error + 'dx) \<Rightarrow> 'dy \<Rightarrow> error + 'g list" where
  "backprop backprop_layer dY =
     (case backprop_layer dY of Inl e \<Rightarrow> Inl e | Inr _ \<Rightarrow> Inr [])"

definition transformer_model_forward ::
  "('x, 'y, 'dy, 'dx) transformer_model \<Rightarrow> 'x \<Rightarrow> bool \<Rightarrow> error + 'y \<times> ('dy \<Rightarrow> error + 'g list)"
  where
  "transformer_model_forward m docs is_train =
     (case layers m of
        [] \<Rightarrow> Inl IndexError
      | layer0 # _ \<Rightarrow>
          (case layer0 docs is_train of
             Inl e \<Rightarrow> Inl e
           | Inr (Y, backprop_layer) \<Rightarrow> Inr (Y, backprop backprop_layer)))"

section \<open>The wrapped encoder: \<^verbatim>\<open>_pytorch_encoder\<close>\<close>

text \<open>
  The gradient scaler's configuration is a dictionary; \<^verbatim>\<open>SimpleFrozenDict\<close> is a
  subclass of \<^verbatim>\<open>dict\<close> that may hold entries, so both kinds carry a mapping.
  A value is a boolean or something else.
\<close>

datatype 'v pyval = PyBool bool | PyOther 'v

datatype 'v config_dict =
    SimpleFrozenDict (entries: "string \<rightharpoonup> 'v pyval")
  | Dict (entries: "string \<rightharpoonup> 'v pyval")

record curated_encoder =
  encoder_max_seq_len :: int
  encoder_padding_idx :: int

text \<open>
  What \<^verbatim>\<open>_pytorch_encoder\<close> hands to \<^verbatim>\<open>PyTorchWrapper_v2\<close> and sets on the result:
  the two arguments bound into \<^verbatim>\<open>_convert_inputs\<close>, the mixed-precision flag, the
  keyword arguments of \<^verbatim>\<open>PyTorchGradScaler\<close>, the dimensions and the attributes.
\<close>

record 'v pytorch_wrapper =
  bound_max_model_seq_len :: int
  bound_padding_idx :: int
  wrapper_mixed_precision :: bool
  grad_scaler_kwargs :: "string \<rightharpoonup> 'v pyval"
  dims :: "string \<rightharpoonup> int"
  wrapper_attrs :: "string \<rightharpoonup> bool"

definition pytorch_encoder ::
  "curated_encoder \<Rightarrow> int \<Rightarrow> bool \<Rightarrow> 'v config_dict \<Rightarrow> 'v pytorch_wrapper" where
  "pytorch_encoder encoder hidden_width mixed_precision grad_scaler_config =
     (let grad_scaler_config1 =
            (case grad_scaler_config of
               SimpleFrozenDict _ \<Rightarrow> Map.empty
             | Dict d \<Rightarrow> d);
          grad_scaler_config2 =
            (if grad_scaler_config1 ''enabled'' = None
             then grad_scaler_config1(''enabled'' \<mapsto> PyBool mixed_precision)
             else grad_scaler_config1)
      in \<lparr>bound_max_model_seq_len = encoder_max_seq_len encoder,
          bound_padding_idx = encoder_padding_idx encoder,
          wrapper_mixed_precision = mixed_precision,
          grad_scaler_kwargs = grad_scaler_config2,
          dims = [''nO'' \<mapsto> hidden_width],
          wrapper_attrs = [''_all_layer_outputs'' \<mapsto> True]\<rparr>)"

section \<open>The checkpoint loader: \<^verbatim>\<open>build_pytorch_checkpoint_loader_v1\<close>\<close>

text \<open>
  The model as the loader sees it: its shims, each wrapping a torch module, and
  everything else. The torch and \<^verbatim>\<open>curated_transformers\<close> calls are parameters:
  \<^verbatim>\<open>get_torch_default_device\<close>, \<^verbatim>\<open>torch.load\<close>,
  \<^verbatim>\<open>convert_pretrained_model_for_encoder\<close>, \<^verbatim>\<open>load_state_dict\<close> and \<^verbatim>\<open>to\<close>.
  The two methods mutate the encoder in place; here they return the encoder after
  the call, and the model is returned with that encoder in its first shim.
\<close>

record ('e, 's) shim =
  shim_model :: 'e
  shim_other :: 's

record ('e, 's, 'r) torch_model =
  shims :: "('e, 's) shim list"
  model_other :: 'r

record ('e, 'p, 'd, 'path) torch_api =
  get_torch_default_device :: 'd
  torch_load :: "'path \<Rightarrow> 'd \<Rightarrow> error + 'p"
  convert_pretrained_model_for_encoder :: "'e \<Rightarrow> 'p \<Rightarrow> error + 'p"
  load_state_dict :: "'e \<Rightarrow> 'p \<Rightarrow> error + 'e"
  to_device :: "'e \<Rightarrow> 'd \<Rightarrow> error + 'e"

definition load ::
  "('e, 'p, 'd, 'path) torch_api \<Rightarrow> 'path \<Rightarrow> ('e, 's, 'r) torch_model \<Rightarrow>
   error + ('e, 's, 'r) torch_model" where
  "load api path m =
     (case shims m of
        [] \<Rightarrow> Inl IndexError
      | shim0 # rest \<Rightarrow>
          let encoder = shim_model shim0;
              device = get_torch_default_device api
          in (case torch_load api path device of
                Inl e \<Rightarrow> Inl e
              | Inr params0 \<Rightarrow>
                  (case convert_pretrained_model_for_encoder api encoder params0 of
                     Inl e \<Rightarrow> Inl e
                   | Inr params1 \<Rightarrow>
                       (case load_state_dict api encoder params1 of
                          Inl e \<Rightarrow> Inl e
                        | Inr encoder1 \<Rightarrow>
                            (case to_device api encoder1 device of
                               Inl e \<Rightarrow> Inl e
                             | Inr encoder2 \<Rightarrow>
                                 Inr (m\<lparr>shims := shim0\<lparr>shim_model := encoder2\<rparr> # rest\<rparr>))))))"

definition build_pytorch_checkpoint_loader_v1 ::
  "('e, 'p, 'd, 'path) torch_api \<Rightarrow> 'path \<Rightarrow>
   (('e, 's, 'r) torch_model \<Rightarrow> error + ('e, 's, 'r) torch_model)" where
  "build_pytorch_checkpoint_loader_v1 api path = load api path"

section \<open>Sample inputs\<close>

definition cpu_model :: model where
  "cpu_model = \<lparr>model_ops = \<lparr>device_type = ''cpu'', device_id = - 1, torch_uint64 = False\<rparr>,
                 attrs = [''_all_layer_outputs'' \<mapsto> True]\<rparr>"

definition sample_batch :: "ints1d list" where
  "sample_batch = [[101, 7, 102], [101]]"

definition sample_outputs :: "real pytorch_transformer_output" where
  "sample_outputs =
     \<lparr>all_outputs = [Tensor None [[[1], [2], [3]], [[4], [5], [6]]],
                     Tensor None [[[7], [8], [9]], [[10], [11], [12]]]]\<rparr>"

definition last_layer_model :: model where
  "last_layer_model = cpu_model\<lparr>attrs := [''_all_layer_outputs'' \<mapsto> False]\<rparr>"

definition sample_backprop :: "real \<Rightarrow> error + real" where
  "sample_backprop dY = Inr (2 * dY)"

definition sample_layer :: "(nat list, nat, real, real) layer" where
  "sample_layer docs is_train = Inr (length docs, sample_backprop)"

record sample_encoder =
  se_weights :: "(string \<times> int) list"
  se_device :: string
  se_config :: string

definition sample_api :: "(sample_encoder, (string \<times> int) list, string, string) torch_api" where
  "sample_api =
     \<lparr>get_torch_default_device = ''cpu'',
      torch_load = (\<lambda>path device.
         if path = ''model.pt'' then Inr [(''hf.w'', 3)] else Inl (External_error ''no such file'')),
      convert_pretrained_model_for_encoder = (\<lambda>encoder params0.
         Inr (map (\<lambda>(k, v). (drop 3 k, v)) params0)),
      load_state_dict = (\<lambda>encoder params1.
         if map fst params1 = map fst (se_weights encoder)
         then Inr (encoder\<lparr>se_weights := params1\<rparr>)
         else Inl (External_error ''unexpected keys'')),
      to_device = (\<lambda>encoder device. Inr (encoder\<lparr>se_device := device\<rparr>))\<rparr>"

definition sample_torch_model :: "(sample_encoder, string, string) torch_model" where
  "sample_torch_model =
     \<lparr>shims = [\<lparr>shim_model = \<lparr>se_weights = [(''w'', 0)], se_device = ''meta'', se_config = ''bert''\<rparr>,
                 shim_other = ''optimizer''\<rparr>],
      model_other = ''pytorch''\<rparr>"

section \<open>Properties of padding\<close>

text \<open>
  C9. Applied to an empty batch, \<^verbatim>\<open>_convert_inputs\<close> fails in \<^verbatim>\<open>max\<close>, for every
  maximum length and padding id: the error is not the length check's, nothing has been
  allocated, and no zero-row tensor is returned.
\<close>

theorem convert_inputs_empty_batch:
  "(convert_inputs m [] is_train max_model_seq_len padding_idx alog
      :: (error + ((ints2d tensor, unit) args_kwargs \<times>
             ('d \<Rightarrow> alloc_log \<Rightarrow> ('f::zero) list list \<times> alloc_log))) \<times> alloc_log)
   = (Inl ValueError_max_empty, alog)"
  by (simp add: convert_inputs_def max_size_def)

subsection \<open>Casting into the buffer\<close>

lemma astype_int64_id:
  assumes "in_int64 v"
  shows "astype Int64 v = v"
proof -
  have "0 \<le> v + 2 ^ 63" and "v + 2 ^ 63 < 2 ^ 64"
    using assms by (simp_all add: in_int64_def)
  then have "(v + 2 ^ 63) mod 2 ^ 64 = v + 2 ^ 63"
    by (rule mod_pos_pos_trivial)
  then show ?thesis
    by (simp add: astype_def)
qed

lemma map_astype_int64_id:
  assumes "\<forall>v\<in>set x. in_int64 v"
  shows "map (astype Int64) x = x"
  using assms by (induction x) (simp_all add: astype_int64_id)

lemma full_dtype_int64: "in_int64 v \<Longrightarrow> full_dtype v = Int64"
  by (simp add: full_dtype_def)

subsection \<open>The copy loop\<close>

lemma set_row_prefix_fits:
  assumes "i < fst (shape Xt)" "length sp \<le> snd (shape Xt)"
  shows "set_row_prefix Xt i (length sp) sp =
           Inr (Xt\<lparr>rows := (rows Xt)
                  [i := map (astype (dtype Xt)) sp @ drop (length sp) (rows Xt ! i)]\<rparr>)"
  using assms by (simp add: set_row_prefix_def min_def)

lemma copy_spans_rows:
  assumes "length (rows Xt) = fst (shape Xt)"
    and "\<forall>j<length (rows Xt). length (rows Xt ! j) = snd (shape Xt)"
    and "\<forall>i\<in>set is. i < fst (shape Xt) \<and> length (X ! i) \<le> snd (shape Xt)"
  shows "\<exists>Xt'. copy_spans X is Xt = Inr Xt' \<and> dtype Xt' = dtype Xt \<and> shape Xt' = shape Xt \<and>
           length (rows Xt') = length (rows Xt) \<and>
           (\<forall>j<length (rows Xt). rows Xt' ! j =
              (if j \<in> set is
               then map (astype (dtype Xt)) (X ! j) @ drop (length (X ! j)) (rows Xt ! j)
               else rows Xt ! j))"
  using assms
proof (induction "is" arbitrary: Xt)
  case Nil
  then show ?case by simp
next
  case (Cons i "is")
  define Xt1 where
    "Xt1 = Xt\<lparr>rows := (rows Xt)
              [i := map (astype (dtype Xt)) (X ! i) @ drop (length (X ! i)) (rows Xt ! i)]\<rparr>"
  have i: "i < fst (shape Xt)" and li: "length (X ! i) \<le> snd (shape Xt)"
    using Cons.prems(3) by auto
  have step: "set_row_prefix Xt i (length (X ! i)) (X ! i) = Inr Xt1"
    unfolding Xt1_def by (rule set_row_prefix_fits[OF i li])
  have sh: "shape Xt1 = shape Xt" and len: "length (rows Xt1) = length (rows Xt)"
    and dt: "dtype Xt1 = dtype Xt"
    by (simp_all add: Xt1_def)
  have w1: "length (rows Xt1) = fst (shape Xt1)"
    using Cons.prems(1) by (simp add: Xt1_def)
  have w2: "\<forall>j<length (rows Xt1). length (rows Xt1 ! j) = snd (shape Xt1)"
    using Cons.prems(1,2) i li by (auto simp: Xt1_def nth_list_update)
  have w3: "\<forall>k\<in>set is. k < fst (shape Xt1) \<and> length (X ! k) \<le> snd (shape Xt1)"
    using Cons.prems(3) by (simp add: sh)
  from Cons.IH[OF w1 w2 w3] obtain Xt' where
    r: "copy_spans X is Xt1 = Inr Xt'" and s: "shape Xt' = shape Xt1"
    and t: "dtype Xt' = dtype Xt1"
    and l: "length (rows Xt') = length (rows Xt1)"
    and e: "\<forall>j<length (rows Xt1). rows Xt' ! j =
              (if j \<in> set is
               then map (astype (dtype Xt1)) (X ! j) @ drop (length (X ! j)) (rows Xt1 ! j)
               else rows Xt1 ! j)"
    by blast
  have "copy_spans X (i # is) Xt = Inr Xt'"
    using step r by simp
  moreover have "\<forall>j<length (rows Xt). rows Xt' ! j =
              (if j \<in> set (i # is)
               then map (astype (dtype Xt)) (X ! j) @ drop (length (X ! j)) (rows Xt ! j)
               else rows Xt ! j)"
  proof (intro allI impI)
    fix j assume j: "j < length (rows Xt)"
    have r1: "rows Xt1 ! j =
                (if j = i
                 then map (astype (dtype Xt)) (X ! i) @ drop (length (X ! i)) (rows Xt ! i)
                 else rows Xt ! j)"
      using j by (simp add: Xt1_def nth_list_update)
    have d: "drop (length (X ! j)) (rows Xt1 ! j) = drop (length (X ! j)) (rows Xt ! j)"
      by (simp add: r1)
    have "rows Xt' ! j =
            (if j \<in> set is
             then map (astype (dtype Xt)) (X ! j) @ drop (length (X ! j)) (rows Xt1 ! j)
             else rows Xt1 ! j)"
      using e j len dt by simp
    then show "rows Xt' ! j =
              (if j \<in> set (i # is)
               then map (astype (dtype Xt)) (X ! j) @ drop (length (X ! j)) (rows Xt ! j)
               else rows Xt ! j)"
      using d r1 by auto
  qed
  ultimately show ?case using s sh l len t dt by simp
qed

lemma max_size_nonempty: "X \<noteq> [] \<Longrightarrow> max_size X = Inr (Max (set (map length X)))"
  by (simp add: max_size_def)

lemma length_le_Max: "x \<in> set X \<Longrightarrow> length x \<le> Max (set (map length X))"
  by simp

lemma Max_le_bound:
  assumes "X \<noteq> []" "\<forall>x\<in>set X. int (length x) \<le> b"
  shows "int (Max (set (map length X))) \<le> b"
proof -
  have "Max (set (map length X)) \<in> set (map length X)"
    using assms(1) by (intro Max_in) auto
  then show ?thesis using assms(2) by auto
qed

lemma Max_gt_bound:
  assumes "x \<in> set X" "b < int (length x)"
  shows "b < int (Max (set (map length X)))"
  using length_le_Max[OF assms(1)] assms(2) by linarith

lemma copy_spans_full:
  assumes "\<forall>x\<in>set X. length x \<le> n"
  shows "copy_spans X [0..<length X]
           \<lparr>dtype = dt, shape = (length X, n), rows = replicate (length X) (replicate n p)\<rparr>
         = Inr \<lparr>dtype = dt, shape = (length X, n),
                rows = map (\<lambda>x. map (astype dt) x @ replicate (n - length x) p) X\<rparr>"
proof -
  let ?Xt = "\<lparr>dtype = dt, shape = (length X, n),
              rows = replicate (length X) (replicate n p)\<rparr>"
  have "\<exists>Xt'. copy_spans X [0..<length X] ?Xt = Inr Xt' \<and> dtype Xt' = dtype ?Xt \<and>
           shape Xt' = shape ?Xt \<and>
           length (rows Xt') = length (rows ?Xt) \<and>
           (\<forall>j<length (rows ?Xt). rows Xt' ! j =
              (if j \<in> set [0..<length X]
               then map (astype (dtype ?Xt)) (X ! j) @ drop (length (X ! j)) (rows ?Xt ! j)
               else rows ?Xt ! j))"
    using assms by (intro copy_spans_rows) auto
  then obtain Xt' where r: "copy_spans X [0..<length X] ?Xt = Inr Xt'"
    and t: "dtype Xt' = dt"
    and s: "shape Xt' = (length X, n)" and l: "length (rows Xt') = length X"
    and e: "\<forall>j<length X. rows Xt' ! j
              = map (astype dt) (X ! j) @ replicate (n - length (X ! j)) p"
    by auto
  have "rows Xt' = map (\<lambda>x. map (astype dt) x @ replicate (n - length x) p) X"
    using l e by (intro nth_equalityI) auto
  then have "Xt' = \<lparr>dtype = dt, shape = (length X, n),
                     rows = map (\<lambda>x. map (astype dt) x @ replicate (n - length x) p) X\<rparr>"
    using s t by (cases Xt') simp
  then show ?thesis using r by simp
qed

lemma alloc_grads_eq:
  "alloc_grads X alog = (map (\<lambda>x. replicate (length x) 0) X, alog @ map (\<lambda>x. [length x]) X)"
  by (induction X arbitrary: alog) (simp_all add: alloc1f_def)

lemma alloc_grads_fst: "fst (alloc_grads X alog) = map (\<lambda>x. replicate (length x) 0) X"
  by (simp add: alloc_grads_eq)

text \<open>
  Up to the conversion to a tensor, for every padding id and every ids: the buffer
  has the element type inferred from the padding id and holds the ids cast to it.
\<close>

lemma convert_inputs_buffer:
  assumes "X \<noteq> []" and "\<forall>x\<in>set X. int (length x) \<le> max_model_seq_len"
  shows "convert_inputs m X is_train max_model_seq_len padding_idx alog =
     (case (if device_type (model_ops m) = ''gpu''
            then xp2torch_ints (torch_uint64 (model_ops m))
                   (Some (Cuda (device_id (model_ops m))))
                   \<lparr>dtype = full_dtype padding_idx,
                    shape = (length X, Max (set (map length X))),
                    rows = map (\<lambda>x. map (astype (full_dtype padding_idx)) x
                                    @ replicate (Max (set (map length X)) - length x) padding_idx) X\<rparr>
            else xp2torch_ints (torch_uint64 (model_ops m)) None
                   \<lparr>dtype = full_dtype padding_idx,
                    shape = (length X, Max (set (map length X))),
                    rows = map (\<lambda>x. map (astype (full_dtype padding_idx)) x
                                    @ replicate (Max (set (map length X)) - length x) padding_idx) X\<rparr>) of
        Inl e \<Rightarrow> (Inl e, alog @ [[length X, Max (set (map length X))]])
      | Inr Xt \<Rightarrow>
          (Inr (\<lparr>args = [Xt], kwargs = []\<rparr>, convert_from_torch_backward X),
           alog @ [[length X, Max (set (map length X))]]))"
proof -
  define n where "n = Max (set (map length X))"
  have ms: "max_size X = Inr n"
    unfolding n_def by (rule max_size_nonempty[OF assms(1)])
  have le: "\<not> max_model_seq_len < int n"
    unfolding n_def using Max_le_bound[OF assms] by simp
  have fits: "\<forall>x\<in>set X. length x \<le> n"
    unfolding n_def by simp
  note cp = copy_spans_full[OF fits, of "full_dtype padding_idx" padding_idx]
  have "convert_inputs m X is_train max_model_seq_len padding_idx alog =
     (case (if device_type (model_ops m) = ''gpu''
            then xp2torch_ints (torch_uint64 (model_ops m))
                   (Some (Cuda (device_id (model_ops m))))
                   \<lparr>dtype = full_dtype padding_idx, shape = (length X, n),
                    rows = map (\<lambda>x. map (astype (full_dtype padding_idx)) x
                                    @ replicate (n - length x) padding_idx) X\<rparr>
            else xp2torch_ints (torch_uint64 (model_ops m)) None
                   \<lparr>dtype = full_dtype padding_idx, shape = (length X, n),
                    rows = map (\<lambda>x. map (astype (full_dtype padding_idx)) x
                                    @ replicate (n - length x) padding_idx) X\<rparr>) of
        Inl e \<Rightarrow> (Inl e, alog @ [[length X, n]])
      | Inr Xt \<Rightarrow>
          (Inr (\<lparr>args = [Xt], kwargs = []\<rparr>, convert_from_torch_backward X),
           alog @ [[length X, n]]))"
    using le by (simp add: convert_inputs_def ms xp_full_def cp Let_def split: sum.splits)
  then show ?thesis
    unfolding n_def .
qed

lemma convert_inputs_ok:
  assumes "X \<noteq> []" and "\<forall>x\<in>set X. int (length x) \<le> max_model_seq_len"
    and "in_int64 padding_idx" and "\<forall>x\<in>set X. \<forall>v\<in>set x. in_int64 v"
  shows "convert_inputs m X is_train max_model_seq_len padding_idx alog =
     (Inr (\<lparr>args = [Tensor (if device_type (model_ops m) = ''gpu''
                             then Some (Cuda (device_id (model_ops m))) else None)
                     \<lparr>dtype = Int64,
                      shape = (length X, Max (set (map length X))),
                      rows = map (\<lambda>x. x @ replicate (Max (set (map length X)) - length x) padding_idx) X\<rparr>],
            kwargs = []\<rparr>,
           convert_from_torch_backward X),
      alog @ [[length X, Max (set (map length X))]])"
proof -
  define n where "n = Max (set (map length X))"
  have r: "map (\<lambda>x. map (astype Int64) x @ replicate (n - length x) padding_idx) X
         = map (\<lambda>x. x @ replicate (n - length x) padding_idx) X"
    using assms(4) by (simp add: map_astype_int64_id)
  show ?thesis
    unfolding convert_inputs_buffer[OF assms(1,2)] full_dtype_int64[OF assms(3)]
    unfolding n_def[symmetric] r
    by (simp add: xp2torch_ints_def xp2torch_def)
qed

text \<open>
  The scenario of the specification: two documents of lengths 3 and 5, padding id 0.
\<close>

lemma convert_inputs_example:
  "convert_inputs cpu_model [[11, 12, 13], [21, 22, 23, 24, 25]] False 512 0 [] =
     (Inr (\<lparr>args = [Tensor None \<lparr>dtype = Int64, shape = (2, 5),
                                  rows = [[11, 12, 13, 0, 0], [21, 22, 23, 24, 25]]\<rparr>],
            kwargs = []\<rparr>,
           convert_from_torch_backward [[11, 12, 13], [21, 22, 23, 24, 25]]),
      [[2, 5]])"
proof -
  have h1: "[[11, 12, 13], [21, 22, 23, 24, 25]] \<noteq> ([] :: ints1d list)"
    by simp
  have h2: "\<forall>x\<in>set [[11, 12, 13], [21, 22, 23, 24, 25 :: int]]. int (length x) \<le> 512"
    by simp
  have h3: "in_int64 0"
    by (simp add: in_int64_def)
  have h4: "\<forall>x\<in>set [[11, 12, 13], [21, 22, 23, 24, 25 :: int]]. \<forall>v\<in>set x. in_int64 v"
    by (simp add: in_int64_def)
  show ?thesis
    unfolding convert_inputs_ok[OF h1 h2 h3 h4]
    by (simp add: cpu_model_def numeral_2_eq_2 numeral_3_eq_3)
qed

text \<open>
  An id of \<open>2 ^ 63\<close>, which an array of unsigned 64-bit integers holds, is stored
  in the signed buffer of padding id 0 as \<open>- (2 ^ 63)\<close>: the row does not start with
  the sequence.
\<close>

theorem convert_inputs_wraps_counterexample:
  "convert_inputs cpu_model [[9223372036854775808]] False 512 0 [] =
     (Inr (\<lparr>args = [Tensor None \<lparr>dtype = Int64, shape = (1, 1),
                                  rows = [[- 9223372036854775808]]\<rparr>],
            kwargs = []\<rparr>,
           convert_from_torch_backward [[9223372036854775808]]),
      [[1, 1]])
   \<and> take (length [9223372036854775808 :: int]) [- 9223372036854775808 :: int]
       \<noteq> [9223372036854775808]"
proof -
  have h1: "[[9223372036854775808]] \<noteq> ([] :: ints1d list)"
    by simp
  have h2: "\<forall>x\<in>set [[9223372036854775808 :: int]]. int (length x) \<le> 512"
    by simp
  have d: "full_dtype 0 = Int64"
    by (simp add: full_dtype_def in_int64_def)
  have c: "astype Int64 9223372036854775808 = - 9223372036854775808"
    by (simp add: astype_def)
  show ?thesis
    unfolding convert_inputs_buffer[OF h1 h2] d
    by (simp add: c cpu_model_def xp2torch_ints_def xp2torch_def)
qed

text \<open>
  A padding id of \<open>2 ^ 64\<close> gives a buffer of Python objects: the buffer is allocated
  and filled, and the conversion to a tensor raises.
\<close>

lemma convert_inputs_object_padding:
  "convert_inputs cpu_model [[1, 2]] False 512 18446744073709551616 [] =
     (Inl (External_error ''xp2torch''), [[1, 2]])"
proof -
  have h1: "[[1, 2]] \<noteq> ([] :: ints1d list)"
    by simp
  have h2: "\<forall>x\<in>set [[1, 2 :: int]]. int (length x) \<le> 512"
    by simp
  have d: "full_dtype 18446744073709551616 = Object"
    by (simp add: full_dtype_def in_int64_def)
  show ?thesis
    unfolding convert_inputs_buffer[OF h1 h2] d
    by (simp add: cpu_model_def xp2torch_ints_def)
qed

text \<open>
  C1, amended. For a non-empty batch \<open>X\<close> of \<open>N\<close> sequences, each of length at most
  \<open>max_model_seq_len\<close>, whose ids and padding id lie in the signed 64-bit range,
  \<^verbatim>\<open>_convert_inputs\<close> returns a tensor of shape \<open>(N, max lengths)\<close>; row \<open>i\<close> starts with
  sequence \<open>i\<close>, in order, and every entry after it is \<open>padding_idx\<close>. The tensor is
  placed on the CUDA device of the \<open>ops\<close> when their device type is \<^verbatim>\<open>gpu\<close>, and one
  buffer of that shape has been allocated.
\<close>

theorem convert_inputs_pads:
  assumes "X \<noteq> []" and "\<forall>x\<in>set X. int (length x) \<le> max_model_seq_len"
    and "in_int64 padding_idx" and "\<forall>x\<in>set X. \<forall>v\<in>set x. in_int64 v"
  shows "\<exists>Xt. convert_inputs m X is_train max_model_seq_len padding_idx alog =
           (Inr (\<lparr>args = [Tensor (if device_type (model_ops m) = ''gpu''
                                   then Some (Cuda (device_id (model_ops m))) else None) Xt],
                  kwargs = []\<rparr>,
                 convert_from_torch_backward X),
            alog @ [[length X, Max (set (map length X))]])
         \<and> shape Xt = (length X, Max (set (map length X)))
         \<and> length (rows Xt) = length X
         \<and> (\<forall>i<length X.
              length (rows Xt ! i) = Max (set (map length X))
            \<and> take (length (X ! i)) (rows Xt ! i) = X ! i
            \<and> drop (length (X ! i)) (rows Xt ! i)
                = replicate (Max (set (map length X)) - length (X ! i)) padding_idx)"
proof -
  let ?n = "Max (set (map length X))"
  let ?Xt = "\<lparr>dtype = Int64, shape = (length X, ?n),
              rows = map (\<lambda>x. x @ replicate (?n - length x) padding_idx) X\<rparr>"
  have fits: "\<forall>i<length X. length (X ! i) \<le> ?n"
    by simp
  have "\<forall>i<length X.
              length (rows ?Xt ! i) = ?n
            \<and> take (length (X ! i)) (rows ?Xt ! i) = X ! i
            \<and> drop (length (X ! i)) (rows ?Xt ! i) = replicate (?n - length (X ! i)) padding_idx"
    using fits by simp
  then show ?thesis
    using convert_inputs_ok[OF assms, of m is_train alog]
    by (intro exI[of _ ?Xt]) simp
qed

theorem convert_inputs_pads_witness:
  "[[11, 12, 13], [21, 22, 23, 24, 25]] \<noteq> ([] :: ints1d list)
   \<and> int (length [11, 12, 13 :: int]) \<le> 512
   \<and> int (length [21, 22, 23, 24, 25 :: int]) \<le> 512
   \<and> in_int64 0
   \<and> in_int64 25
   \<and> (\<exists>Xt. (convert_inputs cpu_model [[11, 12, 13], [21, 22, 23, 24, 25]] False 512 0 []
               :: (error + ((ints2d tensor, unit) args_kwargs \<times>
                     (unit \<Rightarrow> alloc_log \<Rightarrow> real list list \<times> alloc_log))) \<times> alloc_log)
            = (Inr (\<lparr>args = [Tensor None Xt], kwargs = []\<rparr>,
                    convert_from_torch_backward [[11, 12, 13], [21, 22, 23, 24, 25]]),
               [[2, 5]])
          \<and> shape Xt = (2, 5)
          \<and> rows Xt ! 0 = [11, 12, 13, 0, 0]
          \<and> rows Xt ! 1 = [21, 22, 23, 24, 25])"
proof -
  let ?X = "[[11, 12, 13], [21, 22, 23, 24, 25]] :: ints1d list"
  have h1: "?X \<noteq> []"
    by simp
  have h2: "\<forall>x\<in>set ?X. int (length x) \<le> 512"
    by simp
  have h5: "in_int64 0" and h6: "in_int64 25"
    by (simp_all add: in_int64_def)
  have h7: "\<forall>x\<in>set ?X. \<forall>v\<in>set x. in_int64 v"
    by (simp add: in_int64_def)
  have n: "Max (set (map length ?X)) = 5" and l: "length ?X = 2"
    and d: "(if device_type (model_ops cpu_model) = ''gpu''
             then Some (Cuda (device_id (model_ops cpu_model))) else None) = None"
    by (simp_all add: cpu_model_def)
  from convert_inputs_pads[OF h1 h2 h5 h7, of cpu_model False "[]", unfolded n l d append_Nil]
  obtain Xt where
    r: "(convert_inputs cpu_model ?X False 512 0 []
               :: (error + ((ints2d tensor, unit) args_kwargs \<times>
                     (unit \<Rightarrow> alloc_log \<Rightarrow> real list list \<times> alloc_log))) \<times> alloc_log)
            = (Inr (\<lparr>args = [Tensor None Xt], kwargs = []\<rparr>, convert_from_torch_backward ?X),
               [[2, 5]])"
    and s: "shape Xt = (2, 5)"
    and t: "\<forall>i<2. length (rows Xt ! i) = 5
                 \<and> take (length (?X ! i)) (rows Xt ! i) = ?X ! i
                 \<and> drop (length (?X ! i)) (rows Xt ! i) = replicate (5 - length (?X ! i)) 0"
    by blast
  have "take 3 (rows Xt ! 0) = [11, 12, 13] \<and> drop 3 (rows Xt ! 0) = replicate 2 0"
    using t[rule_format, of 0] by (simp add: numeral_3_eq_3 numeral_2_eq_2)
  then have "take 3 (rows Xt ! 0) @ drop 3 (rows Xt ! 0) = [11, 12, 13, 0, 0]"
    by (simp add: numeral_2_eq_2)
  then have r0: "rows Xt ! 0 = [11, 12, 13, 0, 0]"
    by simp
  have lt: "(1::nat) < 2"
    by simp
  note t1 = t[rule_format, OF lt]
  have c: "length (?X ! 1) = length (rows Xt ! 1)"
    unfolding t1[THEN conjunct1] by simp
  have "take (length (rows Xt ! 1)) (rows Xt ! 1) = ?X ! 1"
    using t1[THEN conjunct2, THEN conjunct1] unfolding c .
  then have r1: "rows Xt ! 1 = [21, 22, 23, 24, 25]"
    by simp
  have h3: "int (length [11, 12, 13 :: int]) \<le> 512"
    and h4: "int (length [21, 22, 23, 24, 25 :: int]) \<le> 512"
    by simp_all
  show ?thesis using h1 h3 h4 h5 h6 r s r0 r1 by blast
qed

text \<open>
  C2. For a non-empty batch with a sequence longer than \<open>max_model_seq_len\<close>,
  \<^verbatim>\<open>_convert_inputs\<close> raises the sequence-too-long error, which carries the longest
  length of the batch and the model's maximum, and the allocation log is the one it
  was given: the padded buffer has not been created.
\<close>

theorem convert_inputs_too_long:
  assumes "X \<noteq> []" and "\<exists>x\<in>set X. max_model_seq_len < int (length x)"
  shows "(convert_inputs m X is_train max_model_seq_len padding_idx alog
            :: (error + ((ints2d tensor, unit) args_kwargs \<times>
                 ('d \<Rightarrow> alloc_log \<Rightarrow> ('f::zero) list list \<times> alloc_log))) \<times> alloc_log)
         = (Inl (ValueError_seq_too_long (Max (set (map length X))) max_model_seq_len), alog)"
proof -
  from assms(2) obtain x where "x \<in> set X" "max_model_seq_len < int (length x)"
    by blast
  then have "max_model_seq_len < int (Max (set (map length X)))"
    by (rule Max_gt_bound)
  then show ?thesis
    unfolding convert_inputs_def max_size_nonempty[OF assms(1)]
    by (simp only: Let_def sum.case if_True)
qed

theorem convert_inputs_too_long_witness:
  "[[1, 2, 3], [4]] \<noteq> ([] :: ints1d list)
   \<and> (\<exists>x\<in>set [[1, 2, 3], [4 :: int]]. 2 < int (length x))
   \<and> (convert_inputs cpu_model [[1, 2, 3], [4]] False 2 0 [[7]]
        :: (error + ((ints2d tensor, unit) args_kwargs \<times>
             (unit \<Rightarrow> alloc_log \<Rightarrow> int list list \<times> alloc_log))) \<times> alloc_log)
      = (Inl (ValueError_seq_too_long 3 2), [[7]])"
proof -
  have h1: "[[1, 2, 3], [4]] \<noteq> ([] :: ints1d list)"
    by simp
  have h2: "\<exists>x\<in>set [[1, 2, 3], [4 :: int]]. 2 < int (length x)"
    by simp
  show ?thesis
    using h1 h2 convert_inputs_too_long[OF h1 h2, of cpu_model False 0 "[[7]]"]
    by (simp add: numeral_3_eq_3)
qed

lemma convert_inputs_Inr_backward:
  assumes "fst (convert_inputs m X is_train max_model_seq_len padding_idx alog) = Inr (out, bwd)"
  shows "bwd = convert_from_torch_backward X"
  using assms
  by (auto simp: convert_inputs_def Let_def xp_full_def split: sum.splits if_splits)

lemma convert_inputs_sample_forward:
  "fst (convert_inputs cpu_model [[1, 2, 3], [4]] False 512 0 [])
     = Inr (\<lparr>args = [Tensor None \<lparr>dtype = Int64, shape = (2, 3),
                                   rows = [[1, 2, 3], [4, 0, 0]]\<rparr>],
             kwargs = []\<rparr>,
            convert_from_torch_backward [[1, 2, 3], [4]])"
proof -
  have h1: "[[1, 2, 3], [4]] \<noteq> ([] :: ints1d list)"
    by simp
  have h2: "\<forall>x\<in>set [[1, 2, 3], [4 :: int]]. int (length x) \<le> 512"
    by simp
  have h3: "in_int64 0"
    by (simp add: in_int64_def)
  have h4: "\<forall>x\<in>set [[1, 2, 3], [4 :: int]]. \<forall>v\<in>set x. in_int64 v"
    by (simp add: in_int64_def)
  show ?thesis
    unfolding convert_inputs_ok[OF h1 h2 h3 h4]
    by (simp add: cpu_model_def numeral_2_eq_2)
qed

text \<open>
  C5. Whenever \<^verbatim>\<open>_convert_inputs\<close> returns, the backward closure it returns gives,
  for every incoming gradient \<open>d_inputs\<close>, one buffer per input sequence, in input
  order; buffer \<open>i\<close> has the length of sequence \<open>i\<close> and holds zeros only.
\<close>

theorem convert_from_torch_backward_zeros:
  assumes "fst (convert_inputs m X is_train max_model_seq_len padding_idx alog) = Inr (out, bwd)"
  shows "length (fst (bwd d_inputs alog')) = length X
       \<and> (\<forall>i<length X. fst (bwd d_inputs alog') ! i = replicate (length (X ! i)) 0)"
  using convert_inputs_Inr_backward[OF assms]
  by (simp add: convert_from_torch_backward_def alloc_grads_fst)

theorem convert_from_torch_backward_zeros_witness:
  "fst (convert_inputs cpu_model [[1, 2, 3], [4]] False 512 0 [])
     = Inr (\<lparr>args = [Tensor None \<lparr>dtype = Int64, shape = (2, 3),
                                   rows = [[1, 2, 3], [4, 0, 0]]\<rparr>],
             kwargs = []\<rparr>,
            (convert_from_torch_backward [[1, 2, 3], [4]]
               :: real list list \<Rightarrow> alloc_log \<Rightarrow> real list list \<times> alloc_log))
   \<and> fst (convert_from_torch_backward [[1, 2, 3], [4]] [[1 :: real]] [])
     = [[0, 0, 0], [0 :: real]]"
proof -
  have h: "fst (convert_inputs cpu_model [[1, 2, 3], [4]] False 512 0 [])
     = Inr (\<lparr>args = [Tensor None \<lparr>dtype = Int64, shape = (2, 3),
                                   rows = [[1, 2, 3], [4, 0, 0]]\<rparr>],
             kwargs = []\<rparr>,
            (convert_from_torch_backward [[1, 2, 3], [4]]
               :: real list list \<Rightarrow> alloc_log \<Rightarrow> real list list \<times> alloc_log))"
    by (rule convert_inputs_sample_forward)
  have "length (fst (convert_from_torch_backward [[1, 2, 3], [4]] [[1 :: real]] [])
                  :: real list list) = 2
      \<and> (\<forall>i<2. (fst (convert_from_torch_backward [[1, 2, 3], [4]] [[1 :: real]] [])
                  :: real list list) ! i
               = replicate (length ([[1, 2, 3], [4 :: int]] ! i)) 0)"
    using convert_from_torch_backward_zeros[OF h, of "[[1]]" "[]"] by simp
  then have "(fst (convert_from_torch_backward [[1, 2, 3], [4]] [[1 :: real]] [])
                  :: real list list) = [[0, 0, 0], [0]]"
    by (intro nth_equalityI) (auto simp: less_Suc_eq numeral_2_eq_2 numeral_3_eq_3)
  then show ?thesis using h by simp
qed

section \<open>Properties of un-padding\<close>

lemma comprehension_Inr_map:
  "(\<And>x. x \<in> set xs \<Longrightarrow> f x = Inr (g x)) \<Longrightarrow> comprehension f xs = Inr (map g xs)"
  by (induction xs) simp_all

lemma comprehension_InrD:
  "comprehension f xs = Inr ys \<Longrightarrow>
     length ys = length xs \<and> (\<forall>i<length xs. f (xs ! i) = Inr (ys ! i))"
proof (induction xs arbitrary: ys)
  case Nil
  then show ?case by simp
next
  case (Cons x xs)
  from Cons.prems obtain y ys' where y: "f x = Inr y" and r: "comprehension f xs = Inr ys'"
    and ys: "ys = y # ys'"
    by (auto split: sum.splits)
  from Cons.IH[OF r] have l: "length ys' = length xs"
    and e: "\<forall>i<length xs. f (xs ! i) = Inr (ys' ! i)"
    by simp_all
  show ?case
    using y l e ys by (auto simp: nth_Cons split: nat.splits)
qed

lemma index_slice_ok:
  "i < length (data_of t) \<Longrightarrow>
     index_slice t i n = Inr (Tensor (device_of t) (take n (data_of t ! i)))"
  by (simp add: index_slice_def)

lemma index_slice_InrD:
  "index_slice t i n = Inr y \<Longrightarrow>
     i < length (data_of t) \<and> y = Tensor (device_of t) (take n (data_of t ! i))"
  by (auto simp: index_slice_def split: if_splits)



lemma slice_all_layers_ok:
  assumes "\<forall>t\<in>set (all_outputs mo). length (data_of t) = length X"
  shows "slice_all_layers mo (map length X) =
           Inr (map (\<lambda>(i, n). slice_doc (all_outputs mo) i n) (enumerate 0 (map length X)))"
  unfolding slice_all_layers_def
proof (rule comprehension_Inr_map)
  fix p assume p: "p \<in> set (enumerate 0 (map length X))"
  obtain i n where pin: "p = (i, n)" by (cases p)
  with p have i: "i < length X"
    by (simp add: in_set_enumerate_eq)
  have "comprehension (\<lambda>output. index_slice output i n) (all_outputs mo)
          = Inr (slice_doc (all_outputs mo) i n)"
    unfolding slice_doc_def
    by (rule comprehension_Inr_map) (use assms i in \<open>simp add: index_slice_ok\<close>)
  then show "(case p of (i, len) \<Rightarrow>
                comprehension (\<lambda>output. index_slice output i len) (all_outputs mo))
             = Inr (case p of (i, n) \<Rightarrow> slice_doc (all_outputs mo) i n)"
    by (simp add: pin)
qed

lemma slice_last_layer_ok:
  assumes "all_outputs mo \<noteq> []"
    and "length X \<le> length (data_of (last (all_outputs mo)))"
  shows "slice_last_layer mo (map length X) =
           Inr (map (\<lambda>(i, n). slice_doc [last (all_outputs mo)] i n) (enumerate 0 (map length X)))"
  unfolding slice_last_layer_def
proof (rule comprehension_Inr_map)
  fix p assume p: "p \<in> set (enumerate 0 (map length X))"
  obtain i n where pin: "p = (i, n)" by (cases p)
  with p have i: "i < length X"
    by (simp add: in_set_enumerate_eq)
  then have "i < length (data_of (last (all_outputs mo)))"
    using assms(2) by simp
  then show "(case p of (i, len) \<Rightarrow>
                case last_output (all_outputs mo) of
                  Inl e \<Rightarrow> Inl e
                | Inr output \<Rightarrow>
                    (case index_slice output i len of Inl e \<Rightarrow> Inl e | Inr y \<Rightarrow> Inr [y]))
             = Inr (case p of (i, n) \<Rightarrow> slice_doc [last (all_outputs mo)] i n)"
    using assms(1) by (simp add: pin last_output_def index_slice_ok slice_doc_def)
qed

lemma convert_outputs_Inr:
  assumes "attrs m ''_all_layer_outputs'' = Some b"
    and "(if b then slice_all_layers mo (map length X)
          else slice_last_layer mo (map length X)) = Inr Yt"
  shows "convert_outputs m (X, mo) is_train =
           Inr (\<lparr>outputs = map (map data_of) Yt, last_layer_only = (\<not> b)\<rparr>,
                convert_for_torch_backward Yt)"
  using assms by (simp add: convert_outputs_def torch2xp_def)

lemma convert_outputs_InrD:
  assumes "convert_outputs m (X, mo) is_train = Inr (out, bwd)"
  shows "\<exists>b Yt. attrs m ''_all_layer_outputs'' = Some b
           \<and> (if b then slice_all_layers mo (map length X)
               else slice_last_layer mo (map length X)) = Inr Yt
           \<and> out = \<lparr>outputs = map (map data_of) Yt, last_layer_only = (\<not> b)\<rparr>
           \<and> bwd = convert_for_torch_backward Yt"
  using assms
  by (auto simp: convert_outputs_def Let_def torch2xp_def split: option.splits sum.splits if_splits)

lemma data_of_slice_doc:
  "map data_of (slice_doc L i n) = map (\<lambda>t. take n (data_of t ! i)) L"
  by (simp add: slice_doc_def comp_def)

lemma slice_all_layers_InrD:
  assumes "slice_all_layers mo (map length X) = Inr Yt"
  shows "length Yt = length X"
    and "\<forall>i<length X. Yt ! i = slice_doc (all_outputs mo) i (length (X ! i))
           \<and> (\<forall>t\<in>set (all_outputs mo). i < length (data_of t))"
proof -
  let ?L = "all_outputs mo"
  from comprehension_InrD[OF assms[unfolded slice_all_layers_def]]
  have l: "length Yt = length (enumerate 0 (map length X))"
    and e: "\<forall>i<length (enumerate 0 (map length X)).
              (case enumerate 0 (map length X) ! i of
                 (i, len) \<Rightarrow> comprehension (\<lambda>output. index_slice output i len) ?L)
              = Inr (Yt ! i)"
    by simp_all
  show "length Yt = length X" using l by simp
  show "\<forall>i<length X. Yt ! i = slice_doc ?L i (length (X ! i))
           \<and> (\<forall>t\<in>set ?L. i < length (data_of t))"
  proof (intro allI impI)
    fix i assume i: "i < length X"
    then have c: "comprehension (\<lambda>output. index_slice output i (length (X ! i))) ?L = Inr (Yt ! i)"
      using e by (simp add: nth_enumerate_eq)
    from comprehension_InrD[OF c]
    have l2: "length (Yt ! i) = length ?L"
      and e2: "\<forall>k<length ?L. index_slice (?L ! k) i (length (X ! i)) = Inr (Yt ! i ! k)"
      by simp_all
    have a: "\<forall>k<length ?L. i < length (data_of (?L ! k))
               \<and> Yt ! i ! k = Tensor (device_of (?L ! k)) (take (length (X ! i)) (data_of (?L ! k) ! i))"
      using e2 index_slice_InrD by blast
    have "Yt ! i = slice_doc ?L i (length (X ! i))"
      using l2 a by (intro nth_equalityI) (simp_all add: slice_doc_def)
    moreover have "\<forall>t\<in>set ?L. i < length (data_of t)"
      using a by (auto simp: in_set_conv_nth)
    ultimately show "Yt ! i = slice_doc ?L i (length (X ! i))
           \<and> (\<forall>t\<in>set ?L. i < length (data_of t))"
      by simp
  qed
qed

lemma sample_shapes:
  "\<forall>t\<in>set (all_outputs sample_outputs).
     length (data_of t) = length sample_batch \<and> (\<forall>r\<in>set (data_of t). length r = 3)"
  "\<forall>x\<in>set sample_batch. length x \<le> 3"
  by (simp_all add: sample_outputs_def sample_batch_def)

lemma convert_outputs_sample_full:
  "convert_outputs cpu_model (sample_batch, sample_outputs) False =
     Inr (\<lparr>outputs = [[[[1], [2], [3]], [[7], [8], [9]]], [[[4]], [[10]]]],
            last_layer_only = False\<rparr>,
          convert_for_torch_backward
            [[Tensor None [[1], [2], [3]], Tensor None [[7], [8], [9]]],
             [Tensor None [[4]], Tensor None [[10]]]])"
  by (simp add: convert_outputs_def cpu_model_def sample_batch_def sample_outputs_def
      slice_all_layers_def index_slice_def torch2xp_def)

text \<open>
  C3. Let the encoder's output for a batch \<open>X\<close> of \<open>N\<close> sequences hold
  \<open>num_hidden_layers + 1\<close> layers, each with \<open>N\<close> rows of \<open>seq_len\<close> timesteps, where
  no sequence is longer than \<open>seq_len\<close>. Then \<^verbatim>\<open>_convert_outputs\<close> returns \<open>N\<close>
  per-document lists, document \<open>i\<close> built from row \<open>i\<close>; every layer of document \<open>i\<close>
  has exactly \<open>length (X ! i)\<close> timesteps, the first ones of the row; and a document
  has \<open>num_hidden_layers + 1\<close> layers, in the encoder's order, when
  \<^verbatim>\<open>_all_layer_outputs\<close> is true and the last layer alone when it is false.
\<close>

theorem convert_outputs_unpads:
  assumes "attrs m ''_all_layer_outputs'' = Some all_layer_outputs"
    and "length (all_outputs mo) = num_hidden_layers + 1"
    and "\<forall>t\<in>set (all_outputs mo).
           length (data_of t) = length X \<and> (\<forall>r\<in>set (data_of t). length r = seq_len)"
    and "\<forall>x\<in>set X. length x \<le> seq_len"
  shows "\<exists>out bwd.
           convert_outputs m (X, mo) is_train = Inr (out, bwd)
         \<and> last_layer_only out = (\<not> all_layer_outputs)
         \<and> length (outputs out) = length X
         \<and> (\<forall>i<length X.
               length (outputs out ! i) = (if all_layer_outputs then num_hidden_layers + 1 else 1)
             \<and> (\<forall>y\<in>set (outputs out ! i). length y = length (X ! i))
             \<and> outputs out ! i =
                 (if all_layer_outputs
                  then map (\<lambda>t. take (length (X ! i)) (data_of t ! i)) (all_outputs mo)
                  else [take (length (X ! i)) (data_of (last (all_outputs mo)) ! i)]))"
proof -
  let ?L = "all_outputs mo"
  let ?lens = "map length X"
  have ne: "?L \<noteq> []"
    using assms(2) by auto
  have batch: "\<forall>t\<in>set ?L. length (data_of t) = length X"
    using assms(3) by blast
  have lastL: "last ?L \<in> set ?L"
    using ne by simp
  have trunc: "length (take (length (X ! i)) (data_of t ! i)) = length (X ! i)"
    if "i < length X" "t \<in> set ?L" for i t
  proof -
    have "data_of t ! i \<in> set (data_of t)"
      using that batch by simp
    then have "length (data_of t ! i) = seq_len"
      using assms(3) that(2) by blast
    moreover have "length (X ! i) \<le> seq_len"
      using assms(4) that(1) by simp
    ultimately show ?thesis by simp
  qed
  show ?thesis
  proof (cases all_layer_outputs)
    case True
    let ?Yt = "map (\<lambda>(i, n). slice_doc ?L i n) (enumerate 0 ?lens)"
    let ?out = "\<lparr>outputs = map (map data_of) ?Yt, last_layer_only = (\<not> all_layer_outputs)\<rparr>"
    have r: "convert_outputs m (X, mo) is_train = Inr (?out, convert_for_torch_backward ?Yt)"
      using convert_outputs_Inr[OF assms(1), of mo X ?Yt is_train] slice_all_layers_ok[OF batch] True
      by simp
    have o: "outputs ?out ! i = map (\<lambda>t. take (length (X ! i)) (data_of t ! i)) ?L"
      if "i < length X" for i
      using that by (simp add: nth_enumerate_eq data_of_slice_doc)
    have "\<forall>i<length X.
               length (outputs ?out ! i) = (if all_layer_outputs then num_hidden_layers + 1 else 1)
             \<and> (\<forall>y\<in>set (outputs ?out ! i). length y = length (X ! i))
             \<and> outputs ?out ! i =
                 (if all_layer_outputs
                  then map (\<lambda>t. take (length (X ! i)) (data_of t ! i)) ?L
                  else [take (length (X ! i)) (data_of (last ?L) ! i)])"
    proof (intro allI impI)
      fix i assume i: "i < length X"
      have "\<forall>y\<in>set (outputs ?out ! i). length y = length (X ! i)"
        unfolding o[OF i] using trunc[OF i] by auto
      then show "length (outputs ?out ! i) = (if all_layer_outputs then num_hidden_layers + 1 else 1)
             \<and> (\<forall>y\<in>set (outputs ?out ! i). length y = length (X ! i))
             \<and> outputs ?out ! i =
                 (if all_layer_outputs
                  then map (\<lambda>t. take (length (X ! i)) (data_of t ! i)) ?L
                  else [take (length (X ! i)) (data_of (last ?L) ! i)])"
        using o[OF i] True assms(2) by simp
    qed
    moreover have "last_layer_only ?out = (\<not> all_layer_outputs)" "length (outputs ?out) = length X"
      by simp_all
    ultimately show ?thesis using r by blast
  next
    case False
    let ?Yt = "map (\<lambda>(i, n). slice_doc [last ?L] i n) (enumerate 0 ?lens)"
    let ?out = "\<lparr>outputs = map (map data_of) ?Yt, last_layer_only = (\<not> all_layer_outputs)\<rparr>"
    have le: "length X \<le> length (data_of (last ?L))"
      using batch lastL by simp
    have r: "convert_outputs m (X, mo) is_train = Inr (?out, convert_for_torch_backward ?Yt)"
      using convert_outputs_Inr[OF assms(1), of mo X ?Yt is_train]
        slice_last_layer_ok[OF ne le] False
      by simp
    have o: "outputs ?out ! i = [take (length (X ! i)) (data_of (last ?L) ! i)]"
      if "i < length X" for i
      using that by (simp add: nth_enumerate_eq data_of_slice_doc)
    have "\<forall>i<length X.
               length (outputs ?out ! i) = (if all_layer_outputs then num_hidden_layers + 1 else 1)
             \<and> (\<forall>y\<in>set (outputs ?out ! i). length y = length (X ! i))
             \<and> outputs ?out ! i =
                 (if all_layer_outputs
                  then map (\<lambda>t. take (length (X ! i)) (data_of t ! i)) ?L
                  else [take (length (X ! i)) (data_of (last ?L) ! i)])"
    proof (intro allI impI)
      fix i assume i: "i < length X"
      have "\<forall>y\<in>set (outputs ?out ! i). length y = length (X ! i)"
        unfolding o[OF i] using trunc[OF i lastL] by simp
      then show "length (outputs ?out ! i) = (if all_layer_outputs then num_hidden_layers + 1 else 1)
             \<and> (\<forall>y\<in>set (outputs ?out ! i). length y = length (X ! i))
             \<and> outputs ?out ! i =
                 (if all_layer_outputs
                  then map (\<lambda>t. take (length (X ! i)) (data_of t ! i)) ?L
                  else [take (length (X ! i)) (data_of (last ?L) ! i)])"
        using o[OF i] False by simp
    qed
    moreover have "last_layer_only ?out = (\<not> all_layer_outputs)" "length (outputs ?out) = length X"
      by simp_all
    ultimately show ?thesis using r by blast
  qed
qed

theorem convert_outputs_unpads_witness:
  "attrs cpu_model ''_all_layer_outputs'' = Some True
   \<and> length (all_outputs sample_outputs) = 1 + 1
   \<and> (\<exists>out (bwd :: real list list list list \<Rightarrow> _).
         convert_outputs cpu_model (sample_batch, sample_outputs) False = Inr (out, bwd)
       \<and> last_layer_only out = False
       \<and> length (outputs out) = 2
       \<and> outputs out ! 0 = [[[1], [2], [3]], [[7], [8], [9]]]
       \<and> outputs out ! 1 = [[[4]], [[10]]])"
proof -
  have h1: "attrs cpu_model ''_all_layer_outputs'' = Some True"
    by (simp add: cpu_model_def)
  have h2: "length (all_outputs sample_outputs) = 1 + 1"
    by (simp add: sample_outputs_def)
  from convert_outputs_unpads[OF h1 h2 sample_shapes, of False]
  obtain out and bwd :: "real list list list list \<Rightarrow> _" where
    r: "convert_outputs cpu_model (sample_batch, sample_outputs) False = Inr (out, bwd)"
    and f: "last_layer_only out = (\<not> True)"
    and l: "length (outputs out) = length sample_batch"
    and t: "\<forall>i<length sample_batch.
              length (outputs out ! i) = (if True then 1 + 1 else 1)
            \<and> (\<forall>y\<in>set (outputs out ! i). length y = length (sample_batch ! i))
            \<and> outputs out ! i =
                (if True
                 then map (\<lambda>t. take (length (sample_batch ! i)) (data_of t ! i))
                        (all_outputs sample_outputs)
                 else [take (length (sample_batch ! i)) (data_of (last (all_outputs sample_outputs)) ! i)])"
    by blast
  have o0: "outputs out ! 0 = [[[1], [2], [3]], [[7], [8], [9]]]"
    using t[rule_format, of 0] by (simp add: sample_batch_def sample_outputs_def)
  have o1: "outputs out ! 1 = [[[4]], [[10]]]"
    using t[rule_format, of 1] by (simp add: sample_batch_def sample_outputs_def)
  have l2: "length (outputs out) = 2"
    using l by (simp add: sample_batch_def)
  show ?thesis using h1 h2 r f l2 o0 o1 by auto
qed

text \<open>
  C4. On the same batch and encoder output, with \<open>num_hidden_layers + 1\<close> layers, if
  the call with \<^verbatim>\<open>_all_layer_outputs\<close> true returns then so does the call with the
  attribute false; both return one list per document, of \<open>num_hidden_layers + 1\<close>
  layers and of one layer, and the one layer is the last layer of the full list.
\<close>

theorem convert_outputs_toggle:
  assumes "attrs m_full ''_all_layer_outputs'' = Some True"
    and "attrs m_last ''_all_layer_outputs'' = Some False"
    and "length (all_outputs mo) = num_hidden_layers + 1"
    and "convert_outputs m_full (X, mo) is_train = Inr (out_full, bwd_full)"
  shows "\<exists>out_last bwd_last.
           convert_outputs m_last (X, mo) is_train = Inr (out_last, bwd_last)
         \<and> length (outputs out_full) = length X
         \<and> length (outputs out_last) = length X
         \<and> (\<forall>i<length X.
               length (outputs out_full ! i) = num_hidden_layers + 1
             \<and> length (outputs out_last ! i) = 1
             \<and> outputs out_last ! i = [last (outputs out_full ! i)])"
proof -
  let ?L = "all_outputs mo"
  let ?lens = "map length X"
  have ne: "?L \<noteq> []"
    using assms(3) by auto
  from convert_outputs_InrD[OF assms(4)] assms(1) obtain Yt where
    s: "slice_all_layers mo ?lens = Inr Yt"
    and of: "out_full = \<lparr>outputs = map (map data_of) Yt, last_layer_only = False\<rparr>"
    by auto
  note d = slice_all_layers_InrD[OF s]
  have le: "length X \<le> length (data_of (last ?L))"
  proof (cases "X = []")
    case True
    then show ?thesis by simp
  next
    case False
    then have "length X - 1 < length X" by simp
    then have "length X - 1 < length (data_of (last ?L))"
      using d(2) ne by simp
    then show ?thesis by simp
  qed
  let ?Yl = "map (\<lambda>(i, n). slice_doc [last ?L] i n) (enumerate 0 ?lens)"
  let ?out = "\<lparr>outputs = map (map data_of) ?Yl, last_layer_only = (\<not> False)\<rparr>"
  have r: "convert_outputs m_last (X, mo) is_train = Inr (?out, convert_for_torch_backward ?Yl)"
    using convert_outputs_Inr[OF assms(2), of mo X ?Yl is_train] slice_last_layer_ok[OF ne le]
    by simp
  have "\<forall>i<length X.
               length (outputs out_full ! i) = num_hidden_layers + 1
             \<and> length (outputs ?out ! i) = 1
             \<and> outputs ?out ! i = [last (outputs out_full ! i)]"
  proof (intro allI impI)
    fix i assume i: "i < length X"
    have f: "outputs out_full ! i = map (\<lambda>t. take (length (X ! i)) (data_of t ! i)) ?L"
      using i d by (simp add: of data_of_slice_doc)
    have l: "outputs ?out ! i = [take (length (X ! i)) (data_of (last ?L) ! i)]"
      using i by (simp add: nth_enumerate_eq data_of_slice_doc)
    show "length (outputs out_full ! i) = num_hidden_layers + 1
             \<and> length (outputs ?out ! i) = 1
             \<and> outputs ?out ! i = [last (outputs out_full ! i)]"
      unfolding f l using ne assms(3) by (simp add: last_map)
  qed
  moreover have "length (outputs out_full) = length X"
    using d(1) by (simp add: of)
  moreover have "length (outputs ?out) = length X"
    by simp
  ultimately show ?thesis using r by blast
qed

theorem convert_outputs_toggle_witness:
  "attrs cpu_model ''_all_layer_outputs'' = Some True
   \<and> attrs last_layer_model ''_all_layer_outputs'' = Some False
   \<and> length (all_outputs sample_outputs) = 1 + 1
   \<and> (\<exists>out_last (bwd_last :: real list list list list \<Rightarrow> _).
         convert_outputs last_layer_model (sample_batch, sample_outputs) False
           = Inr (out_last, bwd_last)
       \<and> length (outputs out_last) = 2
       \<and> outputs out_last ! 0 = [[[7], [8], [9]]]
       \<and> outputs out_last ! 1 = [[[10]]])"
proof -
  have h1: "attrs cpu_model ''_all_layer_outputs'' = Some True"
    by (simp add: cpu_model_def)
  have h2: "attrs last_layer_model ''_all_layer_outputs'' = Some False"
    by (simp add: last_layer_model_def)
  have h3: "length (all_outputs sample_outputs) = 1 + 1"
    by (simp add: sample_outputs_def)
  note h4 = convert_outputs_sample_full
  from convert_outputs_toggle[OF h1 h2 h3 h4]
  obtain out_last and bwd_last :: "real list list list list \<Rightarrow> _" where
    r: "convert_outputs last_layer_model (sample_batch, sample_outputs) False
          = Inr (out_last, bwd_last)"
    and l: "length (outputs out_last) = length sample_batch"
    and t: "\<forall>i<length sample_batch.
              outputs out_last ! i =
                [last (outputs \<lparr>outputs = [[[[1], [2], [3]], [[7], [8], [9]]], [[[4]], [[10]]]],
                                last_layer_only = False\<rparr> ! i)]"
    by blast
  have o0: "outputs out_last ! 0 = [[[7], [8], [9]]]"
    using t[rule_format, of 0] by (simp add: sample_batch_def)
  have o1: "outputs out_last ! 1 = [[[10]]]"
    using t[rule_format, of 1] by (simp add: sample_batch_def)
  have l2: "length (outputs out_last) = 2"
    using l by (simp add: sample_batch_def)
  show ?thesis using h1 h2 h3 r l2 o0 o1 by auto
qed

text \<open>
  C6. For the closure returned by a forward pass of \<^verbatim>\<open>_convert_outputs\<close>, with \<open>Yt\<close>
  the retained tensors (the returned arrays are their contents): on a gradient
  \<open>dY\<close> it fails with the assertion error exactly when the flattened \<open>dY\<close> and the
  flattened \<open>Yt\<close> differ in length, it fails in no other way, and otherwise it
  returns the flattened \<open>Yt\<close> as the argument and the flattened, converted \<open>dY\<close> as
  \<^verbatim>\<open>grad_tensors\<close>, both in document-then-layer order.
\<close>

theorem convert_for_torch_backward_assertion:
  assumes "convert_outputs m (X, mo) is_train = Inr (out, bwd)"
  shows "\<exists>Yt. outputs out = map (map data_of) Yt
           \<and> length (concat Yt) = length (concat (outputs out))
           \<and> (\<forall>dY. (bwd dY = Inl AssertionError \<longleftrightarrow> length (concat dY) \<noteq> length (concat Yt))
                  \<and> (\<forall>e. bwd dY = Inl e \<longrightarrow> e = AssertionError)
                  \<and> (length (concat dY) = length (concat Yt) \<longrightarrow>
                       bwd dY = Inr \<lparr>args = [concat Yt],
                                     kwargs = [(''grad_tensors'', map (xp2torch None) (concat dY))]\<rparr>))"
proof -
  from convert_outputs_InrD[OF assms] obtain Yt where
    o: "outputs out = map (map data_of) Yt" and b: "bwd = convert_for_torch_backward Yt"
    by auto
  have c: "length (concat Yt) = length (concat (outputs out))"
    unfolding o by (simp add: length_concat comp_def)
  have "\<forall>dY. (bwd dY = Inl AssertionError \<longleftrightarrow> length (concat dY) \<noteq> length (concat Yt))
                  \<and> (\<forall>e. bwd dY = Inl e \<longrightarrow> e = AssertionError)
                  \<and> (length (concat dY) = length (concat Yt) \<longrightarrow>
                       bwd dY = Inr \<lparr>args = [concat Yt],
                                     kwargs = [(''grad_tensors'', map (xp2torch None) (concat dY))]\<rparr>)"
    unfolding b by (auto simp: convert_for_torch_backward_def Let_def)
  then show ?thesis using o c by blast
qed

theorem convert_for_torch_backward_assertion_witness:
  "convert_outputs cpu_model (sample_batch, sample_outputs) False =
     Inr (\<lparr>outputs = [[[[1], [2], [3]], [[7], [8], [9]]], [[[4]], [[10]]]],
            last_layer_only = False\<rparr>,
          (convert_for_torch_backward
            [[Tensor None [[1], [2], [3]], Tensor None [[7], [8], [9]]],
             [Tensor None [[4]], Tensor None [[10]]]]
           :: real list list list list \<Rightarrow> _))
   \<and> convert_for_torch_backward
        [[Tensor None [[1 :: real], [2], [3]], Tensor None [[7], [8], [9]]],
         [Tensor None [[4]], Tensor None [[10]]]]
        [[[[0 :: real]]], [[[0]]]]
      = Inl AssertionError
   \<and> convert_for_torch_backward
        [[Tensor None [[1 :: real], [2], [3]], Tensor None [[7], [8], [9]]],
         [Tensor None [[4]], Tensor None [[10]]]]
        [[[[0 :: real]], [[0]]], [[[0]], [[0]]]]
      \<noteq> Inl AssertionError"
proof -
  let ?Y = "[[Tensor None [[1 :: real], [2], [3]], Tensor None [[7], [8], [9]]],
             [Tensor None [[4]], Tensor None [[10]]]]"
  let ?bwd = "convert_for_torch_backward ?Y
                :: real list list list list \<Rightarrow>
                   error + (real list list tensor list, real list list tensor list) args_kwargs"
  let ?out = "\<lparr>outputs = [[[[1 :: real], [2], [3]], [[7], [8], [9]]], [[[4]], [[10]]]],
               last_layer_only = False\<rparr>"
  have h: "convert_outputs cpu_model (sample_batch, sample_outputs) False = Inr (?out, ?bwd)"
    by (rule convert_outputs_sample_full)
  from convert_for_torch_backward_assertion[OF h]
  obtain Yt where
    o: "outputs ?out = map (map data_of) Yt"
    and n: "length (concat Yt) = length (concat (outputs ?out))"
    and a: "\<forall>dY. (?bwd dY = Inl AssertionError \<longleftrightarrow> length (concat dY) \<noteq> length (concat Yt))
                  \<and> (\<forall>e. ?bwd dY = Inl e \<longrightarrow> e = AssertionError)
                  \<and> (length (concat dY) = length (concat Yt) \<longrightarrow>
                       ?bwd dY = Inr \<lparr>args = [concat Yt],
                                      kwargs = [(''grad_tensors'', map (xp2torch None) (concat dY))]\<rparr>)"
    by (elim exE conjE) (rule that; assumption)
  have n4: "length (concat Yt) = 4"
    using n by simp
  have b1: "?bwd [[[[0]]], [[[0]]]] = Inl AssertionError"
    using a[rule_format, of "[[[[0]]], [[[0]]]]", THEN conjunct1] n4 by simp
  have b2: "?bwd [[[[0]], [[0]]], [[[0]], [[0]]]] \<noteq> Inl AssertionError"
    using a[rule_format, of "[[[[0]], [[0]]], [[[0]], [[0]]]]", THEN conjunct1] n4 by simp
  show ?thesis using h b1 b2 by (intro conjI)
qed

section \<open>Properties of the composed model\<close>

text \<open>
  C7. When the composed layer returns on the input, \<^verbatim>\<open>transformer_model_forward\<close>
  returns the layer's output and a backward closure. On every gradient the closure
  calls the layer's backward function and, when that returns, returns the empty list;
  it never returns anything else, and an exception of the layer's backward function
  is passed on.
\<close>

theorem transformer_model_forward_no_gradient:
  assumes "chained docs is_train = Inr (Y, backprop_layer)"
  shows "\<exists>bp. transformer_model_forward (build_transformer_model_v1 chained) docs is_train
                 = Inr (Y, bp)
            \<and> (\<forall>dY. (\<forall>g. bp dY = Inr g \<longrightarrow> g = [])
                   \<and> (\<forall>dX. backprop_layer dY = Inr dX \<longrightarrow> bp dY = Inr [])
                   \<and> (\<forall>e. backprop_layer dY = Inl e \<longrightarrow> bp dY = Inl e))"
proof -
  have "transformer_model_forward (build_transformer_model_v1 chained) docs is_train
          = Inr (Y, backprop backprop_layer)"
    using assms by (simp add: transformer_model_forward_def build_transformer_model_v1_def)
  moreover have "\<forall>dY. (\<forall>g. backprop backprop_layer dY = Inr g \<longrightarrow> g = [])
                   \<and> (\<forall>dX. backprop_layer dY = Inr dX \<longrightarrow> backprop backprop_layer dY = Inr [])
                   \<and> (\<forall>e. backprop_layer dY = Inl e \<longrightarrow> backprop backprop_layer dY = Inl e)"
    by (auto simp: backprop_def split: sum.splits)
  ultimately show ?thesis by blast
qed

theorem transformer_model_forward_no_gradient_witness:
  "sample_layer [1, 2, 3] True = Inr (3, sample_backprop)
   \<and> (\<exists>bp. transformer_model_forward (build_transformer_model_v1 sample_layer) [1, 2, 3] True
               = Inr (3, bp)
          \<and> bp 1 = Inr ([] :: real list))"
proof -
  have h: "sample_layer [1, 2, 3] True = Inr (3, sample_backprop)"
    by (simp add: sample_layer_def)
  from transformer_model_forward_no_gradient[of sample_layer "[1, 2, 3]" True 3 sample_backprop, OF h]
  obtain bp :: "real \<Rightarrow> error + real list" where
    r: "transformer_model_forward (build_transformer_model_v1 sample_layer) [1, 2, 3] True
          = Inr (3, bp)"
    and b: "\<forall>dY. (\<forall>g. bp dY = Inr g \<longrightarrow> g = [])
                   \<and> (\<forall>dX. sample_backprop dY = Inr dX \<longrightarrow> bp dY = Inr [])
                   \<and> (\<forall>e. sample_backprop dY = Inl e \<longrightarrow> bp dY = Inl e)"
    by (elim exE conjE) (rule that; assumption)
  have "sample_backprop 1 = Inr 2"
    by (simp add: sample_backprop_def)
  then have "bp 1 = Inr []"
    using b by blast
  then show ?thesis using h r by blast
qed

section \<open>Properties of the checkpoint loader\<close>

lemma load_InrD:
  assumes "load api path m = Inr m'"
  shows "\<exists>shim0 rest params0 params1 encoder1 encoder2.
           shims m = shim0 # rest
         \<and> torch_load api path (get_torch_default_device api) = Inr params0
         \<and> convert_pretrained_model_for_encoder api (shim_model shim0) params0 = Inr params1
         \<and> load_state_dict api (shim_model shim0) params1 = Inr encoder1
         \<and> to_device api encoder1 (get_torch_default_device api) = Inr encoder2
         \<and> m' = m\<lparr>shims := shim0\<lparr>shim_model := encoder2\<rparr> # rest\<rparr>"
  using assms
  by (auto simp: load_def Let_def split: list.splits sum.splits)

text \<open>
  C8. Let \<open>unchanged\<close> be any observation of an encoder that \<^verbatim>\<open>load_state_dict\<close> and
  \<^verbatim>\<open>to\<close> preserve (all but its weights and its device). When the callback of
  \<^verbatim>\<open>build_pytorch_checkpoint_loader_v1\<close> returns, for any path, it returns the model
  it was given with the same other parts, the same number of shims, the same shims
  after the first and the same other parts of the first shim; the first shim's encoder
  is the old one after loading the remapped checkpoint and moving to the default
  device, and \<open>unchanged\<close> observes no difference on it.
\<close>

theorem checkpoint_loader_frame:
  assumes "\<forall>e p e'. load_state_dict api e p = Inr e' \<longrightarrow> unchanged e' = unchanged e"
    and "\<forall>e d e'. to_device api e d = Inr e' \<longrightarrow> unchanged e' = unchanged e"
    and "build_pytorch_checkpoint_loader_v1 api path m = Inr m'"
  shows "shims m \<noteq> []
       \<and> model_other m' = model_other m
       \<and> length (shims m') = length (shims m)
       \<and> tl (shims m') = tl (shims m)
       \<and> shim_other (hd (shims m')) = shim_other (hd (shims m))
       \<and> unchanged (shim_model (hd (shims m'))) = unchanged (shim_model (hd (shims m)))
       \<and> (\<exists>params0 params1 encoder1.
             torch_load api path (get_torch_default_device api) = Inr params0
           \<and> convert_pretrained_model_for_encoder api (shim_model (hd (shims m))) params0
               = Inr params1
           \<and> load_state_dict api (shim_model (hd (shims m))) params1 = Inr encoder1
           \<and> to_device api encoder1 (get_torch_default_device api)
               = Inr (shim_model (hd (shims m'))))"
proof -
  from assms(3) have "load api path m = Inr m'"
    by (simp add: build_pytorch_checkpoint_loader_v1_def)
  from load_InrD[OF this] obtain shim0 rest params0 params1 encoder1 encoder2 where
    s: "shims m = shim0 # rest"
    and l: "torch_load api path (get_torch_default_device api) = Inr params0"
    and c: "convert_pretrained_model_for_encoder api (shim_model shim0) params0 = Inr params1"
    and d: "load_state_dict api (shim_model shim0) params1 = Inr encoder1"
    and t: "to_device api encoder1 (get_torch_default_device api) = Inr encoder2"
    and m': "m' = m\<lparr>shims := shim0\<lparr>shim_model := encoder2\<rparr> # rest\<rparr>"
    by blast
  have u: "unchanged encoder2 = unchanged (shim_model shim0)"
    using assms(1) assms(2) d t by metis
  show ?thesis
    using s l c d t u by (auto simp: m')
qed

theorem checkpoint_loader_frame_witness:
  "build_pytorch_checkpoint_loader_v1 sample_api ''model.pt'' sample_torch_model
     = Inr \<lparr>shims = [\<lparr>shim_model = \<lparr>se_weights = [(''w'', 3)], se_device = ''cpu'',
                                     se_config = ''bert''\<rparr>,
                       shim_other = ''optimizer''\<rparr>],
            model_other = ''pytorch''\<rparr>
   \<and> se_config (shim_model (hd (shims
        \<lparr>shims = [\<lparr>shim_model = \<lparr>se_weights = [(''w'', 3)], se_device = ''cpu'',
                                  se_config = ''bert''\<rparr>,
                    shim_other = ''optimizer''\<rparr>],
         model_other = ''pytorch''\<rparr>)))
     = se_config (shim_model (hd (shims sample_torch_model)))"
proof -
  let ?m' = "\<lparr>shims = [\<lparr>shim_model = \<lparr>se_weights = [(''w'', 3)], se_device = ''cpu'',
                                     se_config = ''bert''\<rparr>,
                       shim_other = ''optimizer''\<rparr>],
            model_other = ''pytorch''\<rparr>"
  have h1: "\<forall>e p e'. load_state_dict sample_api e p = Inr e' \<longrightarrow> se_config e' = se_config e"
    by (auto simp: sample_api_def split: if_splits)
  have h2: "\<forall>e d e'. to_device sample_api e d = Inr e' \<longrightarrow> se_config e' = se_config e"
    by (auto simp: sample_api_def)
  have h3: "build_pytorch_checkpoint_loader_v1 sample_api ''model.pt'' sample_torch_model = Inr ?m'"
    by (simp add: build_pytorch_checkpoint_loader_v1_def load_def sample_api_def
        sample_torch_model_def)
  from checkpoint_loader_frame[OF h1 h2 h3]
  have "se_config (shim_model (hd (shims ?m')))
          = se_config (shim_model (hd (shims sample_torch_model)))"
    by (elim conjE)
  then show ?thesis using h3 by (intro conjI)
qed

section \<open>Properties of the wrapped encoder\<close>

text \<open>
  The path of a dictionary that is not a \<^verbatim>\<open>SimpleFrozenDict\<close>: every supplied entry
  reaches the gradient scaler, and \<^verbatim>\<open>"enabled"\<close> is set to \<^verbatim>\<open>mixed_precision\<close> only
  when it is missing. A mapping of either kind without the key gets
  \<^verbatim>\<open>mixed_precision\<close>.
\<close>

lemma pytorch_encoder_dict_kwargs:
  "grad_scaler_kwargs (pytorch_encoder encoder hidden_width mixed_precision (Dict d)) =
     (if d ''enabled'' = None then d(''enabled'' \<mapsto> PyBool mixed_precision) else d)"
  by (simp add: pytorch_encoder_def)

lemma pytorch_encoder_enabled_default:
  "entries cfg ''enabled'' = None \<Longrightarrow>
     grad_scaler_kwargs (pytorch_encoder encoder hidden_width mixed_precision cfg) ''enabled''
       = Some (PyBool mixed_precision)"
  by (cases cfg) (simp_all add: pytorch_encoder_def)

lemma pytorch_encoder_dict_enabled_kept:
  "d ''enabled'' = Some v \<Longrightarrow>
     grad_scaler_kwargs (pytorch_encoder encoder hidden_width mixed_precision (Dict d))
       ''enabled''
     = Some v"
  by (simp add: pytorch_encoder_def)

text \<open>
  C10. A supplied \<^verbatim>\<open>"enabled"\<close> value is to be left unchanged: the builders document
  \<^verbatim>\<open>grad_scaler_config\<close> as the configuration passed to the gradient scaler, and
  the path of a plain dictionary keeps it. The code does not do so for a
  \<^verbatim>\<open>SimpleFrozenDict\<close> that holds entries: it
  replaces the mapping by an empty dictionary instead of a mutable copy. With
  \<^verbatim>\<open>"enabled": True\<close> supplied and \<^verbatim>\<open>mixed_precision=False\<close>, the scaler is built with
  \<^verbatim>\<open>enabled=False\<close>.
\<close>

theorem pytorch_encoder_frozen_dict_enabled_dropped:
  "entries (SimpleFrozenDict [''enabled'' \<mapsto> (PyBool True :: unit pyval)]) ''enabled''
     = Some (PyBool True)
   \<and> grad_scaler_kwargs
       (pytorch_encoder \<lparr>encoder_max_seq_len = 512, encoder_padding_idx = 0\<rparr> 768 False
          (SimpleFrozenDict [''enabled'' \<mapsto> (PyBool True :: unit pyval)]))
       ''enabled''
     = Some (PyBool False)
   \<and> grad_scaler_kwargs
       (pytorch_encoder \<lparr>encoder_max_seq_len = 512, encoder_padding_idx = 0\<rparr> 768 False
          (Dict [''enabled'' \<mapsto> (PyBool True :: unit pyval)]))
       ''enabled''
     = Some (PyBool True)"
  by (simp add: pytorch_encoder_def)

end
